theory Spec2Isabelle
  imports Complex_Main "HOL-Library.Multiset"
begin

section \<open>Values, exceptions and Python's small semantics\<close>

text \<open>
  The handlers of \<^verbatim>\<open>src/app.py\<close> work on decoded JSON. A decoded value is one of
  Python's \<^verbatim>\<open>None\<close>, a bool, an int, a float (its finite value as a rational, or one of
  the two kinds of non-finite float the decoder lets through), a string, a list or a dict.
  A dict is an association list read with \<open>map_of\<close>.
\<close>

datatype json =
    JNull
  | JBool bool
  | JInt int
  | JFloat rat
  | JNaN
  | JInf
  | JStr string
  | JArr "json list"
  | JObj "(string \<times> json) list"

text \<open>
  The exceptions the handlers can meet. \<open>ProviderError\<close> stands for whatever an external
  service (identity provider, payment processor, bank-link aggregator, mail server) raises;
  \<open>BadRequest\<close> is the HTTP exception of \<^verbatim>\<open>request.get_json()\<close>. Only the kind of an
  exception is kept; the text of its message is not.
\<close>

datatype exn =
    ValueError
  | TypeError
  | AttributeError
  | KeyError string
  | OverflowError
  | BadRequest
  | ProviderError string

text \<open>Python's truth value of a decoded value (\<^verbatim>\<open>not x\<close>, \<^verbatim>\<open>all([...])\<close>, \<^verbatim>\<open>x or y\<close>).\<close>

fun truthy :: "json \<Rightarrow> bool" where
  "truthy JNull = False"
| "truthy (JBool b) = b"
| "truthy (JInt i) = (i \<noteq> 0)"
| "truthy (JFloat r) = (r \<noteq> 0)"
| "truthy JNaN = True"
| "truthy JInf = True"
| "truthy (JStr s) = (s \<noteq> [])"
| "truthy (JArr xs) = (xs \<noteq> [])"
| "truthy (JObj kvs) = (kvs \<noteq> [])"

text \<open>\<^verbatim>\<open>d.get(k)\<close> and \<^verbatim>\<open>d.get(k, default)\<close> on a dict.\<close>

definition dict_get_default :: "(string \<times> json) list \<Rightarrow> string \<Rightarrow> json \<Rightarrow> json" where
  "dict_get_default kvs k d = (case map_of kvs k of None \<Rightarrow> d | Some v \<Rightarrow> v)"

definition dict_get :: "(string \<times> json) list \<Rightarrow> string \<Rightarrow> json" where
  "dict_get kvs k = dict_get_default kvs k JNull"

text \<open>\<^verbatim>\<open>x[k]\<close> with a string key: a missing key raises KeyError, a value that is no dict raises TypeError.\<close>

fun subscript :: "json \<Rightarrow> string \<Rightarrow> exn + json" where
  "subscript (JObj kvs) k = (case map_of kvs k of None \<Rightarrow> Inl (KeyError k) | Some v \<Rightarrow> Inr v)"
| "subscript _ k = Inl TypeError"

text \<open>\<^verbatim>\<open>x.get(k)\<close> on an arbitrary value: only a dict has the method.\<close>

fun py_get :: "json \<Rightarrow> string \<Rightarrow> exn + json" where
  "py_get (JObj kvs) k = Inr (dict_get kvs k)"
| "py_get _ k = Inl AttributeError"

text \<open>Truncation toward zero, as \<^verbatim>\<open>int(x)\<close> does on a float.\<close>

definition trunc_rat :: "rat \<Rightarrow> int" where
  "trunc_rat r = (if 0 \<le> r then \<lfloor>r\<rfloor> else \<lceil>r\<rceil>)"

text \<open>
  \<^verbatim>\<open>int(x)\<close>. Parsing a string is Python's own; it is taken as the parameter \<open>parse\<close>
  (\<open>None\<close> where \<^verbatim>\<open>int\<close> raises ValueError).
\<close>

fun py_int :: "(string \<Rightarrow> int option) \<Rightarrow> json \<Rightarrow> exn + int" where
  "py_int parse JNull = Inl TypeError"
| "py_int parse (JBool b) = Inr (if b then 1 else 0)"
| "py_int parse (JInt i) = Inr i"
| "py_int parse (JFloat r) = Inr (trunc_rat r)"
| "py_int parse JNaN = Inl ValueError"
| "py_int parse JInf = Inl OverflowError"
| "py_int parse (JStr s) = (case parse s of None \<Rightarrow> Inl ValueError | Some i \<Rightarrow> Inr i)"
| "py_int parse (JArr xs) = Inl TypeError"
| "py_int parse (JObj kvs) = Inl TypeError"

section \<open>The application's surroundings\<close>

text \<open>
  What \<^verbatim>\<open>create_app\<close> closes over and what the handlers call outside this repository:
  whether the SDK imports succeeded, the environment variables read per request, and the
  external calls, each returning its value or the exception it raises. The handle of the
  document store (\<^verbatim>\<open>db\<close>, \<open>None\<close> when it was never set up) is passed to the handlers
  beside these. The handlers test \<^verbatim>\<open>stripe\<close>, \<^verbatim>\<open>plaid_client\<close> and \<^verbatim>\<open>db\<close> one by one,
  and so does the model; the identity provider's answer is the \<^verbatim>\<open>uid\<close> of the decoded
  token.
\<close>

record env =
  stripe_sdk :: bool
  plaid_client :: bool
  webhook_secret :: "string option"
  contact_email :: "string option"
  smtp_host :: "string option"
  smtp_port :: "string option"
  smtp_user :: "string option"
  smtp_password :: "string option"
  int_of_str :: "string \<Rightarrow> int option"
  json_loads :: "string \<Rightarrow> json option"
  verify_header :: "string \<Rightarrow> string option \<Rightarrow> string \<Rightarrow> bool"
  verify_id_token :: "string \<Rightarrow> exn + string"
  session_create :: "(string \<times> json) list \<Rightarrow> exn + json"
  link_token_create :: "string \<Rightarrow> exn + json"
  item_public_token_exchange :: "string \<Rightarrow> exn + json"
  smtp_send :: "string \<Rightarrow> int \<Rightarrow> string \<Rightarrow> string \<Rightarrow> exn option"

text \<open>
  The document store. A transaction document holds the five fields the webhook writes;
  the server timestamp is the store's clock reading at the write, a number. Documents of
  all users' \<^verbatim>\<open>transactions\<close> subcollections are kept in one list, in insertion order,
  each with its owner and its generated document id. Document ids are opaque keys drawn
  from a counter, so no two documents share one. The store itself never fails here.
\<close>

record transaction =
  tx_amount :: json
  tx_currency :: json
  tx_payment_intent :: json
  tx_status :: json
  tx_timestamp :: nat

record contact_message =
  cm_name :: json
  cm_email :: json
  cm_message :: json
  cm_timestamp :: nat

record store =
  users :: "(string \<times> (string \<times> json) list) list"
  transactions :: "(string \<times> nat \<times> transaction) list"
  contact_messages :: "contact_message list"
  next_id :: nat

text \<open>\<^verbatim>\<open>collection.add(data)\<close>: a new document under a fresh id.\<close>

definition add_transaction :: "store \<Rightarrow> string \<Rightarrow> transaction \<Rightarrow> store" where
  "add_transaction s uid t =
     s\<lparr>transactions := transactions s @ [(uid, next_id s, t)], next_id := Suc (next_id s)\<rparr>"


text \<open>\<^verbatim>\<open>document(uid).set({"plaidAccessToken": t}, merge=True)\<close>: the other fields stay.\<close>

definition set_user_merge :: "store \<Rightarrow> string \<Rightarrow> string \<Rightarrow> json \<Rightarrow> store" where
  "set_user_merge s uid k v =
     (case map_of (users s) uid of
        None \<Rightarrow> s\<lparr>users := (uid, [(k, v)]) # users s\<rparr>
      | Some doc \<Rightarrow> s\<lparr>users := (uid, (k, v) # doc) # users s\<rparr>)"

text \<open>The documents of one user's \<^verbatim>\<open>transactions\<close> subcollection, with their ids.\<close>

definition user_transactions :: "store \<Rightarrow> string \<Rightarrow> (nat \<times> transaction) list" where
  "user_transactions s uid = map snd (filter (\<lambda>d. fst d = uid) (transactions s))"

text \<open>
  \<^verbatim>\<open>order_by("timestamp", direction=DESCENDING).stream()\<close>: the store returns the
  documents by timestamp, latest first, documents of one timestamp by id, largest first.
\<close>

definition later_doc :: "nat \<times> transaction \<Rightarrow> nat \<times> transaction \<Rightarrow> bool" where
  "later_doc a b =
     (tx_timestamp (snd b) < tx_timestamp (snd a)
      \<or> (tx_timestamp (snd a) = tx_timestamp (snd b) \<and> fst b \<le> fst a))"

fun insert_desc :: "nat \<times> transaction \<Rightarrow> (nat \<times> transaction) list \<Rightarrow> (nat \<times> transaction) list" where
  "insert_desc d [] = [d]"
| "insert_desc d (x # xs) = (if later_doc d x then d # x # xs else x # insert_desc d xs)"

fun order_by_timestamp_desc :: "(nat \<times> transaction) list \<Rightarrow> (nat \<times> transaction) list" where
  "order_by_timestamp_desc [] = []"
| "order_by_timestamp_desc (d # ds) = insert_desc d (order_by_timestamp_desc ds)"

section \<open>Requests, responses and effects\<close>

text \<open>
  A request as the handlers read it: the Authorization and Stripe-Signature headers, the
  raw body, and what \<^verbatim>\<open>request.get_json()\<close> gives (a decoded value, or the exception
  it raises).
\<close>

record request =
  authorization :: "string option"
  stripe_signature :: "string option"
  raw_data :: string
  get_json :: "exn + json"

text \<open>
  A response body is a raw string, \<^verbatim>\<open>jsonify\<close> of a value, \<^verbatim>\<open>jsonify({"error": str(exc)})\<close>
  of a caught exception, or \<^verbatim>\<open>jsonify\<close> of a list of transaction documents, each with
  its id added.
\<close>

datatype body =
    Raw string
  | Json json
  | ErrorOf exn
  | JsonDocs "(nat \<times> transaction) list"

text \<open>
  A handler either returns a response (status and body) or lets an exception leave it.
\<close>

datatype outcome = Response nat body | Unhandled exn

text \<open>
  The calls a handler makes outside the process, in the order it makes them, and the
  line it prints when sending mail fails.
\<close>

datatype effect =
    VerifyIdToken string
  | DbGetUser string
  | DbSetUser string
  | DbAddTransaction string
  | DbAddContact
  | DbQueryTransactions string
  | StripeSessionCreate "(string \<times> json) list"
  | PlaidLinkTokenCreate string
  | PlaidExchange string
  | SmtpSend
  | PrintFailure

record result =
  outcome :: outcome
  store_after :: "store option"
  effects :: "effect list"

definition reply :: "nat \<Rightarrow> body \<Rightarrow> store option \<Rightarrow> effect list \<Rightarrow> result" where
  "reply st b db tr = \<lparr>outcome = Response st b, store_after = db, effects = tr\<rparr>"

definition unhandled :: "exn \<Rightarrow> store option \<Rightarrow> effect list \<Rightarrow> result" where
  "unhandled x db tr = \<lparr>outcome = Unhandled x, store_after = db, effects = tr\<rparr>"

definition error_json :: "string \<Rightarrow> body" where
  "error_json m = Json (JObj [(''error'', JStr m)])"

section \<open>The identity verifier\<close>

text \<open>
  \<^verbatim>\<open>_verify_firebase_id_token\<close>: the header must be present, not empty and start with
  \<^verbatim>\<open>"Bearer "\<close>; the token is \<^verbatim>\<open>auth_header.split(" ")[1]\<close>, the text between the first
  and the second space. The identity provider's answer is the uid or its exception.
\<close>

definition verify_firebase_id_token :: "env \<Rightarrow> request \<Rightarrow> (exn + string) \<times> effect list" where
  "verify_firebase_id_token e req =
     (case authorization req of
        None \<Rightarrow> (Inl ValueError, [])
      | Some h \<Rightarrow>
          if take 7 h = ''Bearer '' then
            (let id_token = takeWhile (\<lambda>c. c \<noteq> CHR '' '') (drop 7 h)
             in (verify_id_token e id_token, [VerifyIdToken id_token]))
          else (Inl ValueError, []))"

text \<open>\<^verbatim>\<open>data = request.get_json() or {}\<close>, then the first \<^verbatim>\<open>data.get\<close>.\<close>

definition json_or_empty :: "exn + json \<Rightarrow> exn + (string \<times> json) list" where
  "json_or_empty r =
     (case r of
        Inl x \<Rightarrow> Inl x
      | Inr v \<Rightarrow>
          if truthy v then (case v of JObj kvs \<Rightarrow> Inr kvs | _ \<Rightarrow> Inl AttributeError)
          else Inr [])"

section \<open>The webhook reconciler\<close>

text \<open>
  \<^verbatim>\<open>stripe.Event.construct_from(values, key)\<close> reads \<^verbatim>\<open>values.get("id")\<close> first, so
  anything but a dict raises. \<^verbatim>\<open>stripe.Webhook.construct_event\<close> checks the signature
  header against the secret, decodes the payload and builds the event from it.
\<close>

definition construct_from :: "json \<Rightarrow> exn + json" where
  "construct_from v = (case v of JObj kvs \<Rightarrow> Inr (JObj kvs) | _ \<Rightarrow> Inl AttributeError)"

definition loads_event :: "env \<Rightarrow> string \<Rightarrow> exn + json" where
  "loads_event e payload =
     (case json_loads e payload of None \<Rightarrow> Inl ValueError | Some v \<Rightarrow> construct_from v)"

definition construct_event :: "env \<Rightarrow> string \<Rightarrow> string option \<Rightarrow> string \<Rightarrow> exn + json" where
  "construct_event e payload sig_header secret =
     (if verify_header e payload sig_header secret then loads_event e payload
      else Inl (ProviderError ''SignatureVerificationError''))"

text \<open>Lines 208 to 220: the event, or the exception that the handler turns into a 400.\<close>

definition webhook_event :: "env \<Rightarrow> request \<Rightarrow> exn + json" where
  "webhook_event e req =
     (case webhook_secret e of
        None \<Rightarrow> loads_event e (raw_data req)
      | Some secret \<Rightarrow>
          if secret \<noteq> [] then construct_event e (raw_data req) (stripe_signature req) secret
          else loads_event e (raw_data req))"

text \<open>
  \<^verbatim>\<open>db.collection("users").document(uid)\<close>. The store's client joins the collection
  path and the id with \<^verbatim>\<open>"/"\<close> and splits the result again: joining raises TypeError on
  an id that is no string, and a document reference needs an even number of path
  elements, so an id with an odd number of slashes raises ValueError. An id with an even
  number of slashes names a document further down; its path is still given by the id,
  which stays the key under which the store below files what is written there.
\<close>

definition document_id :: "json \<Rightarrow> exn + string" where
  "document_id v =
     (case v of
        JStr s \<Rightarrow>
          if even (length (filter (\<lambda>c. c = CHR ''/'') s)) then Inr s else Inl ValueError
      | _ \<Rightarrow> Inl TypeError)"

text \<open>
  Lines 223 to 236. Python evaluates the receiver \<^verbatim>\<open>db.collection(...).document(uid)\<close>
  first, then the fields of the dict from top to bottom, then calls \<^verbatim>\<open>add\<close>; an
  exception on the way leaves the handler before anything is written.
\<close>

definition record_session :: "store \<Rightarrow> nat \<Rightarrow> json \<Rightarrow> exn + (string \<times> store)" where
  "record_session s now session =
     (case py_get session ''client_reference_id'' of
        Inl x \<Rightarrow> Inl x
      | Inr ref \<Rightarrow>
          (case document_id (if truthy ref then ref else JStr ''unknown'') of
             Inl x \<Rightarrow> Inl x
           | Inr uid \<Rightarrow>
               (case subscript session ''amount_total'' of
                  Inl x \<Rightarrow> Inl x
                | Inr amount \<Rightarrow>
                    (case subscript session ''currency'' of
                       Inl x \<Rightarrow> Inl x
                     | Inr cur \<Rightarrow>
                         (case py_get session ''payment_intent'' of
                            Inl x \<Rightarrow> Inl x
                          | Inr intent \<Rightarrow>
                              (case subscript session ''payment_status'' of
                                 Inl x \<Rightarrow> Inl x
                               | Inr st \<Rightarrow>
                                   Inr (uid, add_transaction s uid
                                     \<lparr>tx_amount = amount, tx_currency = cur,
                                      tx_payment_intent = intent, tx_status = st,
                                      tx_timestamp = now\<rparr>)))))))"

definition handle_event :: "store \<Rightarrow> nat \<Rightarrow> json \<Rightarrow> result" where
  "handle_event s now event =
     (case subscript event ''type'' of
        Inl x \<Rightarrow> unhandled x (Some s) []
      | Inr ty \<Rightarrow>
          if ty = JStr ''checkout.session.completed'' then
            (case subscript event ''data'' of
               Inl x \<Rightarrow> unhandled x (Some s) []
             | Inr d \<Rightarrow>
                 (case subscript d ''object'' of
                    Inl x \<Rightarrow> unhandled x (Some s) []
                  | Inr session \<Rightarrow>
                      (case record_session s now session of
                         Inl x \<Rightarrow> unhandled x (Some s) []
                       | Inr (uid, s') \<Rightarrow> reply 200 (Raw []) (Some s') [DbAddTransaction uid])))
          else reply 200 (Raw []) (Some s) [])"

text \<open>\<^verbatim>\<open>stripe_webhook\<close>; \<open>now\<close> is the store's clock reading during this request.\<close>

definition stripe_webhook :: "env \<Rightarrow> store option \<Rightarrow> nat \<Rightarrow> request \<Rightarrow> result" where
  "stripe_webhook e db now req =
     (if stripe_sdk e then
        (case db of
           None \<Rightarrow> reply 500 (Raw []) db []
         | Some s \<Rightarrow>
             (case webhook_event e req of
                Inl x \<Rightarrow> reply 400 (Raw []) db []
              | Inr event \<Rightarrow> handle_event s now event))
      else reply 500 (Raw []) db [])"

section \<open>The checkout initiator\<close>

text \<open>The keyword arguments of \<^verbatim>\<open>stripe.checkout.Session.create\<close>, lines 174 to 190.\<close>

definition session_kwargs :: "int \<Rightarrow> json \<Rightarrow> json \<Rightarrow> json \<Rightarrow> json \<Rightarrow> (string \<times> json) list" where
  "session_kwargs amount description customer_email success_url cancel_url =
     [(''payment_method_types'', JArr [JStr ''card'', JStr ''us_bank_account'']),
      (''line_items'',
         JArr [JObj [(''price_data'',
                        JObj [(''currency'', JStr ''usd''),
                              (''unit_amount'', JInt amount),
                              (''product_data'', JObj [(''name'', description)])]),
                     (''quantity'', JInt 1)]]),
      (''mode'', JStr ''payment''),
      (''customer_email'', customer_email),
      (''success_url'', success_url),
      (''cancel_url'', cancel_url)]"

text \<open>
  Lines 169 to 173: the cached email of the user, \<^verbatim>\<open>None\<close> without a store or a
  document, or the exception of \<^verbatim>\<open>document(uid)\<close>, raised before the store is read.
\<close>

definition lookup_email :: "store option \<Rightarrow> string \<Rightarrow> (exn + json) \<times> effect list" where
  "lookup_email db uid =
     (case db of
        None \<Rightarrow> (Inr JNull, [])
      | Some s \<Rightarrow>
          (case document_id (JStr uid) of
             Inl x \<Rightarrow> (Inl x, [])
           | Inr u \<Rightarrow>
               (case map_of (users s) u of
                  None \<Rightarrow> (Inr JNull, [DbGetUser u])
                | Some doc \<Rightarrow> (Inr (dict_get doc ''email''), [DbGetUser u]))))"

text \<open>
  \<^verbatim>\<open>create_checkout_session\<close>. Lines 158 to 164 run before the \<^verbatim>\<open>try\<close>: an exception
  of \<^verbatim>\<open>get_json\<close>, of \<^verbatim>\<open>data.get\<close> or of \<^verbatim>\<open>int\<close> leaves the handler. Inside the
  \<^verbatim>\<open>try\<close> every exception becomes a 400.
\<close>

definition create_checkout_session :: "env \<Rightarrow> store option \<Rightarrow> request \<Rightarrow> result" where
  "create_checkout_session e db req =
     (if stripe_sdk e then
        (case json_or_empty (get_json req) of
           Inl x \<Rightarrow> unhandled x db []
         | Inr data \<Rightarrow>
             (case py_int (int_of_str e) (dict_get_default data ''amount'' (JInt 0)) of
                Inl x \<Rightarrow> unhandled x db []
              | Inr amount \<Rightarrow>
                  (let description = dict_get_default data ''description'' (JStr ''Legal Services Payment'');
                       success_url = dict_get data ''success_url'';
                       cancel_url = dict_get data ''cancel_url''
                   in if amount \<noteq> 0 \<and> truthy success_url \<and> truthy cancel_url then
                        (case verify_firebase_id_token e req of
                           (Inl x, tr) \<Rightarrow> reply 400 (ErrorOf x) db tr
                         | (Inr uid, tr) \<Rightarrow>
                             (case lookup_email db uid of
                                (Inl x, tr2) \<Rightarrow> reply 400 (ErrorOf x) db (tr @ tr2)
                              | (Inr customer_email, tr2) \<Rightarrow>
                                  (let kwargs = session_kwargs amount description customer_email
                                                  success_url cancel_url
                                   in case session_create e kwargs of
                                        Inl x \<Rightarrow>
                                          reply 400 (ErrorOf x) db
                                            (tr @ tr2 @ [StripeSessionCreate kwargs])
                                      | Inr url \<Rightarrow>
                                          reply 200 (Json (JObj [(''url'', url)])) db
                                            (tr @ tr2 @ [StripeSessionCreate kwargs]))))
                      else reply 400 (error_json ''amount, success_url and cancel_url are required'') db [])))
      else reply 500 (error_json ''Stripe SDK not installed'') db [])"

section \<open>The bank-link exchanger\<close>

text \<open>
  \<^verbatim>\<open>LinkTokenCreateRequestUser(client_user_id=uid)\<close> on line 251 stands between the two
  \<^verbatim>\<open>try\<close> blocks and checks its argument: an empty id raises there and leaves the
  handler.
\<close>

definition link_token_request :: "string \<Rightarrow> exn + string" where
  "link_token_request uid = (if uid = [] then Inl ValueError else Inr uid)"

definition plaid_create_link_token :: "env \<Rightarrow> store option \<Rightarrow> request \<Rightarrow> result" where
  "plaid_create_link_token e db req =
     (if plaid_client e then
        (case verify_firebase_id_token e req of
           (Inl x, tr) \<Rightarrow> reply 401 (ErrorOf x) db tr
         | (Inr uid, tr) \<Rightarrow>
             (case link_token_request uid of
                Inl x \<Rightarrow> unhandled x db tr
              | Inr user \<Rightarrow>
                  (case link_token_create e user of
                     Inl x \<Rightarrow> reply 400 (ErrorOf x) db (tr @ [PlaidLinkTokenCreate user])
                   | Inr response \<Rightarrow>
                       reply 200 (Json response) db (tr @ [PlaidLinkTokenCreate user]))))
      else reply 500 (error_json ''Plaid SDK not installed'') db [])"

text \<open>
  \<^verbatim>\<open>ItemPublicTokenExchangeRequest(public_token=...)\<close> is built outside the \<^verbatim>\<open>try\<close>
  and type-checks its argument: a token that is not a string raises there.
\<close>

fun exchange_request :: "json \<Rightarrow> exn + string" where
  "exchange_request (JStr s) = Inr s"
| "exchange_request _ = Inl TypeError"

definition plaid_exchange_public_token :: "env \<Rightarrow> store option \<Rightarrow> request \<Rightarrow> result" where
  "plaid_exchange_public_token e db req =
     (if plaid_client e then
        (case db of
           None \<Rightarrow> reply 500 (error_json ''Plaid or Firestore not configured'') db []
         | Some s \<Rightarrow>
             (case json_or_empty (get_json req) of
                Inl x \<Rightarrow> unhandled x db []
              | Inr data \<Rightarrow>
                  (let public_token = dict_get data ''public_token''
                   in if truthy public_token then
                        (case verify_firebase_id_token e req of
                           (Inl x, tr) \<Rightarrow> reply 401 (ErrorOf x) db tr
                         | (Inr uid, tr) \<Rightarrow>
                             (case exchange_request public_token of
                                Inl x \<Rightarrow> unhandled x db tr
                              | Inr tok \<Rightarrow>
                                  (case item_public_token_exchange e tok of
                                     Inl x \<Rightarrow> reply 400 (ErrorOf x) db (tr @ [PlaidExchange tok])
                                   | Inr response \<Rightarrow>
                                       (case subscript response ''access_token'' of
                                          Inl x \<Rightarrow> reply 400 (ErrorOf x) db (tr @ [PlaidExchange tok])
                                        | Inr access_token \<Rightarrow>
                                            (case document_id (JStr uid) of
                                               Inl x \<Rightarrow>
                                                 reply 400 (ErrorOf x) db (tr @ [PlaidExchange tok])
                                             | Inr u \<Rightarrow>
                                                 reply 200
                                                   (Json (JObj [(''message'', JStr ''Bank account linked'')]))
                                                   (Some (set_user_merge s u ''plaidAccessToken'' access_token))
                                                   (tr @ [PlaidExchange tok, DbSetUser u]))))))
                      else reply 400 (error_json ''public_token is required'') db [])))
      else reply 500 (error_json ''Plaid or Firestore not configured'') db [])"

section \<open>Contact intake\<close>



section \<open>The transaction history reader and the health check\<close>

text \<open>
  \<^verbatim>\<open>list_transactions\<close>: \<^verbatim>\<open>document(uid)\<close> on line 351 is outside the \<^verbatim>\<open>try\<close>, so
  its exception leaves the handler; the loop of lines 356 to 360 keeps the order of the
  stream and adds each document's id to its fields.
\<close>

definition list_transactions :: "env \<Rightarrow> store option \<Rightarrow> request \<Rightarrow> result" where
  "list_transactions e db req =
     (case db of
        None \<Rightarrow> reply 500 (error_json ''Firestore not configured'') db []
      | Some s \<Rightarrow>
          (case verify_firebase_id_token e req of
             (Inl x, tr) \<Rightarrow> reply 401 (ErrorOf x) db tr
           | (Inr uid, tr) \<Rightarrow>
               (case document_id (JStr uid) of
                  Inl x \<Rightarrow> unhandled x db tr
                | Inr u \<Rightarrow>
                    reply 200 (JsonDocs (order_by_timestamp_desc (user_transactions s u))) db
                      (tr @ [DbQueryTransactions u]))))"

definition health :: "store option \<Rightarrow> result" where
  "health db = reply 200 (Json (JObj [(''status'', JStr ''ok'')])) db []"

section \<open>Sample surroundings for the evaluated examples\<close>

text \<open>
  A completed-checkout event for user \<^verbatim>\<open>u1\<close>, some payload texts with what the decoder
  makes of them, an empty store, a bare request, and surroundings in which every SDK is
  installed, no webhook secret and no mail server is configured, and the identity
  provider knows one token. The examples below change single fields of these.
\<close>

definition sample_session :: json where
  "sample_session =
     JObj [(''client_reference_id'', JStr ''u1''), (''amount_total'', JInt 5000),
           (''currency'', JStr ''usd''), (''payment_intent'', JStr ''pi_1''),
           (''payment_status'', JStr ''paid'')]"

definition sample_event :: json where
  "sample_event =
     JObj [(''id'', JStr ''evt_1''), (''type'', JStr ''checkout.session.completed''),
           (''data'', JObj [(''object'', sample_session)])]"

definition sample_payload :: string where
  \<open>sample_payload =
     ''{"id":"evt_1","type":"checkout.session.completed","data":{"object":{"client_reference_id":"u1","amount_total":5000,"currency":"usd","payment_intent":"pi_1","payment_status":"paid"}}}''\<close>

definition other_payload :: string where
  \<open>other_payload = ''{"type":"payment_intent.created"}''\<close>

definition sample_loads :: "string \<Rightarrow> json option" where
  \<open>sample_loads p =
     (if p = sample_payload then Some sample_event
      else if p = other_payload then Some (JObj [(''type'', JStr ''payment_intent.created'')])
      else if p = ''{}'' then Some (JObj [])
      else if p = ''[]'' then Some (JArr [])
      else None)\<close>

definition sample_env :: env where
  "sample_env =
     \<lparr>stripe_sdk = True, plaid_client = True, webhook_secret = None,
      contact_email = None, smtp_host = None, smtp_port = None, smtp_user = None,
      smtp_password = None,
      int_of_str = (\<lambda>s. None),
      json_loads = sample_loads,
      verify_header = (\<lambda>payload header secret. header = Some ''t=1,v1=good''),
      verify_id_token =
        (\<lambda>t. if t = ''token-of-u1'' then Inr ''u1'' else Inl (ProviderError ''invalid token'')),
      session_create = (\<lambda>kwargs. Inr (JStr ''https://checkout.example/session-1'')),
      link_token_create = (\<lambda>uid. Inr (JObj [(''link_token'', JStr ''link-1'')])),
      item_public_token_exchange = (\<lambda>tok. Inr (JObj [(''access_token'', JStr ''access-1'')])),
      smtp_send = (\<lambda>host port user password. None)\<rparr>"

definition empty_store :: store where
  "empty_store = \<lparr>users = [], transactions = [], contact_messages = [], next_id = 0\<rparr>"

definition sample_store :: store where
  "sample_store =
     \<lparr>users = [(''u1'', [(''email'', JStr ''u1@example.com'')])],
      transactions =
        [(''u1'', 0, \<lparr>tx_amount = JInt 1200, tx_currency = JStr ''usd'',
                      tx_payment_intent = JStr ''pi_a'', tx_status = JStr ''paid'',
                      tx_timestamp = 5\<rparr>),
         (''u2'', 1, \<lparr>tx_amount = JInt 700, tx_currency = JStr ''usd'',
                      tx_payment_intent = JStr ''pi_b'', tx_status = JStr ''paid'',
                      tx_timestamp = 7\<rparr>),
         (''u1'', 2, \<lparr>tx_amount = JInt 900, tx_currency = JStr ''usd'',
                      tx_payment_intent = JStr ''pi_c'', tx_status = JStr ''paid'',
                      tx_timestamp = 9\<rparr>)],
      contact_messages = [], next_id = 3\<rparr>"

definition bare_request :: request where
  "bare_request =
     \<lparr>authorization = None, stripe_signature = None, raw_data = [], get_json = Inl BadRequest\<rparr>"

text \<open>
  The checkout body of the specification's end-to-end scenario with a given amount, and a
  contact form with all three fields filled in.
\<close>

definition checkout_body :: "json \<Rightarrow> json" where
  "checkout_body amount =
     JObj [(''amount'', amount), (''success_url'', JStr ''https://x/ok''),
           (''cancel_url'', JStr ''https://x/cancel'')]"


section \<open>Shared lemmas\<close>

lemmas sample_defs =
  sample_env_def sample_loads_def sample_event_def sample_session_def sample_payload_def
  other_payload_def
  bare_request_def empty_store_def sample_store_def checkout_body_def

lemmas webhook_defs =
  stripe_webhook_def webhook_event_def loads_event_def construct_from_def construct_event_def
  handle_event_def record_session_def document_id_def reply_def unhandled_def dict_get_def
  dict_get_default_def add_transaction_def user_transactions_def

lemma document_id_plain:
  assumes "CHR ''/'' \<notin> set uid"
  shows "document_id (JStr uid) = Inr uid"
proof -
  from assms have "filter (\<lambda>c. c = CHR ''/'') uid = []"
    by (auto simp: filter_empty_conv)
  then show ?thesis by (simp add: document_id_def)
qed

lemma user_transactions_add:
  "user_transactions (add_transaction s uid t) uid = user_transactions s uid @ [(next_id s, t)]"
  by (simp add: user_transactions_def add_transaction_def)

lemma record_session_shape:
  assumes "record_session s now session = Inr (uid, s')"
  shows "\<exists>a c p st. \<forall>s0 t0. record_session s0 t0 session
           = Inr (uid, add_transaction s0 uid
               \<lparr>tx_amount = a, tx_currency = c, tx_payment_intent = p, tx_status = st,
                tx_timestamp = t0\<rparr>)"
proof -
  from assms obtain r a c p st where
    "py_get session ''client_reference_id'' = Inr r"
    "document_id (if truthy r then r else JStr ''unknown'') = Inr uid"
    "subscript session ''amount_total'' = Inr a"
    "subscript session ''currency'' = Inr c"
    "py_get session ''payment_intent'' = Inr p"
    "subscript session ''payment_status'' = Inr st"
    by (auto simp: record_session_def split: sum.splits)
  then have "\<forall>s0 t0. record_session s0 t0 session
           = Inr (uid, add_transaction s0 uid
               \<lparr>tx_amount = a, tx_currency = c, tx_payment_intent = p, tx_status = st,
                tx_timestamp = t0\<rparr>)"
    by (simp add: record_session_def)
  then show ?thesis by blast
qed

lemma handle_event_write_shape:
  assumes "effects (handle_event s now event) = [DbAddTransaction uid]"
  shows "\<exists>a c p st. \<forall>s0 t0. handle_event s0 t0 event
           = reply 200 (Raw []) (Some (add_transaction s0 uid
               \<lparr>tx_amount = a, tx_currency = c, tx_payment_intent = p, tx_status = st,
                tx_timestamp = t0\<rparr>)) [DbAddTransaction uid]"
proof -
  from assms obtain d session s' where
    ty: "subscript event ''type'' = Inr (JStr ''checkout.session.completed'')"
    and d: "subscript event ''data'' = Inr d"
    and ob: "subscript d ''object'' = Inr session"
    and rs: "record_session s now session = Inr (uid, s')"
    by (auto simp: handle_event_def reply_def unhandled_def split: sum.splits if_splits)
  from record_session_shape [OF rs] obtain a c p st where
    "\<forall>s0 t0. record_session s0 t0 session
           = Inr (uid, add_transaction s0 uid
               \<lparr>tx_amount = a, tx_currency = c, tx_payment_intent = p, tx_status = st,
                tx_timestamp = t0\<rparr>)" by blast
  with ty d ob show ?thesis
    by (auto simp: handle_event_def)
qed

lemma webhook_write_shape:
  assumes "effects (stripe_webhook e (Some s) now req) = [DbAddTransaction uid]"
  shows "\<exists>a c p st. \<forall>s0 t0. stripe_webhook e (Some s0) t0 req
           = reply 200 (Raw []) (Some (add_transaction s0 uid
               \<lparr>tx_amount = a, tx_currency = c, tx_payment_intent = p, tx_status = st,
                tx_timestamp = t0\<rparr>)) [DbAddTransaction uid]"
proof -
  from assms obtain event where sdk: "stripe_sdk e" and ev: "webhook_event e req = Inr event"
    and he: "effects (handle_event s now event) = [DbAddTransaction uid]"
    by (auto simp: stripe_webhook_def reply_def split: if_splits sum.splits)
  from handle_event_write_shape [OF he] sdk ev show ?thesis
    by (simp add: stripe_webhook_def)
qed

lemma webhook_event_fails:
  assumes "(\<exists>secret. webhook_secret e = Some secret \<and> secret \<noteq> []
              \<and> \<not> verify_header e (raw_data req) (stripe_signature req) secret)
           \<or> json_loads e (raw_data req) = None"
  shows "\<exists>x. webhook_event e req = Inl x"
  using assms
  by (auto simp: webhook_event_def construct_event_def loads_event_def split: option.splits)

lemma handle_event_not_400:
  "outcome (handle_event s now event) \<noteq> Response 400 b"
  by (auto simp: handle_event_def reply_def unhandled_def split: sum.splits)

lemma webhook_event_no_secret:
  assumes "webhook_secret e = None \<or> webhook_secret e = Some []"
  shows "webhook_event e req = loads_event e (raw_data req)"
  using assms by (auto simp: webhook_event_def)

lemma webhook_event_ignores_signature:
  assumes "webhook_secret e = None \<or> webhook_secret e = Some []"
  shows "webhook_event (e\<lparr>verify_header := f\<rparr>) (req\<lparr>stripe_signature := sg\<rparr>)
           = webhook_event e req"
  using assms by (auto simp: webhook_event_def loads_event_def)

lemma webhook_400_without_secret:
  assumes "webhook_secret e = None \<or> webhook_secret e = Some []" and "stripe_sdk e"
  shows "outcome (stripe_webhook e (Some s) now req) = Response 400 (Raw [])
            \<longleftrightarrow> (json_loads e (raw_data req) = None
                 \<or> (\<exists>v. json_loads e (raw_data req) = Some v \<and> (\<forall>kvs. v \<noteq> JObj kvs)))"
proof (cases "json_loads e (raw_data req)")
  case None
  with assms(2) show ?thesis
    by (simp add: stripe_webhook_def webhook_event_no_secret [OF assms(1)] loads_event_def reply_def)
next
  case (Some v)
  with assms(2) show ?thesis
    by (cases v)
      (simp_all add: stripe_webhook_def webhook_event_no_secret [OF assms(1)] loads_event_def
        construct_from_def reply_def handle_event_not_400)
qed

lemma webhook_forged_recorded:
  assumes "webhook_secret e = None \<or> webhook_secret e = Some []" and "stripe_sdk e"
    and "json_loads e (raw_data req) = Some (JObj ev)"
    and "map_of ev ''type'' = Some (JStr ''checkout.session.completed'')"
    and "map_of ev ''data'' = Some (JObj d)" and "map_of d ''object'' = Some (JObj ob)"
    and "map_of ob ''client_reference_id'' = Some (JStr uid)" and "uid \<noteq> []"
    and "CHR ''/'' \<notin> set uid"
    and "map_of ob ''amount_total'' = Some a" and "map_of ob ''currency'' = Some c"
    and "map_of ob ''payment_status'' = Some st"
  shows "stripe_webhook e (Some s) now req
               = reply 200 (Raw [])
                   (Some (add_transaction s uid
                      \<lparr>tx_amount = a, tx_currency = c,
                       tx_payment_intent = dict_get ob ''payment_intent'',
                       tx_status = st, tx_timestamp = now\<rparr>))
                   [DbAddTransaction uid]"
  using assms(2-) document_id_plain [of uid]
  by (simp add: stripe_webhook_def webhook_event_no_secret [OF assms(1)] loads_event_def
        construct_from_def handle_event_def record_session_def dict_get_def dict_get_default_def)








lemmas checkout_defs =
  create_checkout_session_def json_or_empty_def verify_firebase_id_token_def lookup_email_def
  document_id_def
  session_kwargs_def reply_def unhandled_def error_json_def dict_get_def dict_get_default_def

lemma verify_missing_bearer:
  assumes "authorization req = None \<or> (\<exists>h. authorization req = Some h \<and> take 7 h \<noteq> ''Bearer '')"
  shows "verify_firebase_id_token e req = (Inl ValueError, [])"
  using assms by (auto simp: verify_firebase_id_token_def)

lemma checkout_missing_bearer:
  assumes "verify_firebase_id_token e req = (Inl ValueError, [])"
  shows "effects (create_checkout_session e db req) = []
         \<and> store_after (create_checkout_session e db req) = db
         \<and> (\<forall>b. outcome (create_checkout_session e db req) \<noteq> Response 200 b)"
  using assms
  by (auto simp: create_checkout_session_def reply_def unhandled_def Let_def split: sum.splits)

lemma link_token_missing_bearer:
  assumes "verify_firebase_id_token e req = (Inl ValueError, [])"
  shows "effects (plaid_create_link_token e db req) = []
         \<and> store_after (plaid_create_link_token e db req) = db
         \<and> outcome (plaid_create_link_token e db req)
             = (if plaid_client e then Response 401 (ErrorOf ValueError)
                else Response 500 (error_json ''Plaid SDK not installed''))"
  using assms by (simp add: plaid_create_link_token_def reply_def)

lemma exchange_missing_bearer:
  assumes "verify_firebase_id_token e req = (Inl ValueError, [])"
  shows "effects (plaid_exchange_public_token e db req) = []
         \<and> store_after (plaid_exchange_public_token e db req) = db
         \<and> outcome (plaid_exchange_public_token e db req)
             = (if plaid_client e \<and> db \<noteq> None then
                  (case json_or_empty (get_json req) of
                     Inl x \<Rightarrow> Unhandled x
                   | Inr data \<Rightarrow>
                       if truthy (dict_get data ''public_token'')
                       then Response 401 (ErrorOf ValueError)
                       else Response 400 (error_json ''public_token is required''))
                else Response 500 (error_json ''Plaid or Firestore not configured''))"
  using assms
  by (auto simp: plaid_exchange_public_token_def reply_def unhandled_def Let_def
      split: sum.splits option.splits)

lemma transactions_missing_bearer:
  assumes "verify_firebase_id_token e req = (Inl ValueError, [])"
  shows "effects (list_transactions e db req) = []
         \<and> store_after (list_transactions e db req) = db
         \<and> outcome (list_transactions e db req)
             = (if db \<noteq> None then Response 401 (ErrorOf ValueError)
                else Response 500 (error_json ''Firestore not configured''))"
  using assms by (auto simp: list_transactions_def reply_def split: option.splits)


section \<open>C1: duplicate webhook deliveries\<close>

text \<open>
  C1, as stated: two deliveries carrying the same payment_intent for the same user leave
  at most one Transaction record in that user's collection. The handler never looks for
  an existing record: delivering the sample event twice to an empty store leaves two
  records with payment_intent \<^verbatim>\<open>pi_1\<close> under user \<^verbatim>\<open>u1\<close>.
\<close>

theorem webhook_duplicate_counterexample:
  "\<exists>s1 s2.
       store_after (stripe_webhook sample_env (Some empty_store) 10
                      (bare_request\<lparr>raw_data := sample_payload\<rparr>)) = Some s1
     \<and> store_after (stripe_webhook sample_env (Some s1) 20
                      (bare_request\<lparr>raw_data := sample_payload\<rparr>)) = Some s2
     \<and> length (filter (\<lambda>d. tx_payment_intent (snd d) = JStr ''pi_1'')
                 (user_transactions s2 ''u1'')) = 2"
  by (simp add: webhook_defs sample_defs)

text \<open>
  C1, amended: every delivery that the handler records appends one Transaction record.
  When a delivery of a request is recorded for a user, a second delivery of the same
  request is recorded too, and the user's collection then holds the old records followed
  by two new ones with the same payment_intent.
\<close>

theorem webhook_appends_on_every_delivery:
  assumes "effects (stripe_webhook e (Some s) t1 req) = [DbAddTransaction uid]"
  shows "\<exists>s1 s2 d1 d2.
           store_after (stripe_webhook e (Some s) t1 req) = Some s1
         \<and> store_after (stripe_webhook e (Some s1) t2 req) = Some s2
         \<and> effects (stripe_webhook e (Some s1) t2 req) = [DbAddTransaction uid]
         \<and> outcome (stripe_webhook e (Some s1) t2 req) = Response 200 (Raw [])
         \<and> user_transactions s1 uid = user_transactions s uid @ [d1]
         \<and> user_transactions s2 uid = user_transactions s uid @ [d1, d2]
         \<and> tx_payment_intent (snd d1) = tx_payment_intent (snd d2)"
proof -
  from webhook_write_shape [OF assms] obtain a c p st where
    sh: "\<And>s0 t0. stripe_webhook e (Some s0) t0 req
           = reply 200 (Raw []) (Some (add_transaction s0 uid
               \<lparr>tx_amount = a, tx_currency = c, tx_payment_intent = p, tx_status = st,
                tx_timestamp = t0\<rparr>)) [DbAddTransaction uid]" by blast
  show ?thesis
    by (simp add: sh reply_def user_transactions_add)
qed

theorem webhook_appends_on_every_delivery_witness:
  "\<exists>s1 s2 d1 d2.
       store_after (stripe_webhook sample_env (Some empty_store) 10
                      (bare_request\<lparr>raw_data := sample_payload\<rparr>)) = Some s1
     \<and> store_after (stripe_webhook sample_env (Some s1) 20
                      (bare_request\<lparr>raw_data := sample_payload\<rparr>)) = Some s2
     \<and> effects (stripe_webhook sample_env (Some s1) 20
                      (bare_request\<lparr>raw_data := sample_payload\<rparr>)) = [DbAddTransaction ''u1'']
     \<and> outcome (stripe_webhook sample_env (Some s1) 20
                      (bare_request\<lparr>raw_data := sample_payload\<rparr>)) = Response 200 (Raw [])
     \<and> user_transactions s1 ''u1'' = user_transactions empty_store ''u1'' @ [d1]
     \<and> user_transactions s2 ''u1'' = user_transactions empty_store ''u1'' @ [d1, d2]
     \<and> tx_payment_intent (snd d1) = tx_payment_intent (snd d2)"
proof -
  have h: "effects (stripe_webhook sample_env (Some empty_store) 10
                      (bare_request\<lparr>raw_data := sample_payload\<rparr>)) = [DbAddTransaction ''u1'']"
    by (simp add: webhook_defs sample_defs)
  from webhook_appends_on_every_delivery [OF h] show ?thesis .
qed

section \<open>C2: unverified or undecodable webhook requests\<close>

text \<open>
  C2: a webhook request whose signature does not verify against the configured secret, or
  whose payload cannot be decoded, writes nothing to the document store, makes no other
  call, and is answered with a failure status and an empty body: 400, or 500 when the
  payment SDK or the store is not configured.
\<close>

theorem webhook_rejects_unverified:
  assumes "(\<exists>secret. webhook_secret e = Some secret \<and> secret \<noteq> []
              \<and> \<not> verify_header e (raw_data req) (stripe_signature req) secret)
           \<or> json_loads e (raw_data req) = None"
  shows "store_after (stripe_webhook e db now req) = db
         \<and> effects (stripe_webhook e db now req) = []
         \<and> outcome (stripe_webhook e db now req)
             = Response (if stripe_sdk e \<and> db \<noteq> None then 400 else 500) (Raw [])"
proof -
  from webhook_event_fails [OF assms] obtain x where "webhook_event e req = Inl x" ..
  then show ?thesis
    by (cases db) (simp_all add: stripe_webhook_def reply_def)
qed

theorem webhook_rejects_unverified_witness:
  "store_after (stripe_webhook (sample_env\<lparr>webhook_secret := Some ''whsec_1''\<rparr>) (Some empty_store) 7
       (bare_request\<lparr>stripe_signature := Some ''t=1,v1=forged'', raw_data := sample_payload\<rparr>))
     = Some empty_store
   \<and> effects (stripe_webhook (sample_env\<lparr>webhook_secret := Some ''whsec_1''\<rparr>) (Some empty_store) 7
       (bare_request\<lparr>stripe_signature := Some ''t=1,v1=forged'', raw_data := sample_payload\<rparr>))
     = []
   \<and> outcome (stripe_webhook (sample_env\<lparr>webhook_secret := Some ''whsec_1''\<rparr>) (Some empty_store) 7
       (bare_request\<lparr>stripe_signature := Some ''t=1,v1=forged'', raw_data := sample_payload\<rparr>))
     = Response 400 (Raw [])"
proof -
  have h: "(\<exists>secret. webhook_secret (sample_env\<lparr>webhook_secret := Some ''whsec_1''\<rparr>) = Some secret
              \<and> secret \<noteq> []
              \<and> \<not> verify_header (sample_env\<lparr>webhook_secret := Some ''whsec_1''\<rparr>)
                    (raw_data (bare_request\<lparr>stripe_signature := Some ''t=1,v1=forged'',
                                             raw_data := sample_payload\<rparr>))
                    (stripe_signature (bare_request\<lparr>stripe_signature := Some ''t=1,v1=forged'',
                                             raw_data := sample_payload\<rparr>)) secret)
           \<or> json_loads (sample_env\<lparr>webhook_secret := Some ''whsec_1''\<rparr>)
                (raw_data (bare_request\<lparr>stripe_signature := Some ''t=1,v1=forged'',
                                          raw_data := sample_payload\<rparr>)) = None"
    by (simp add: sample_env_def bare_request_def)
  from webhook_rejects_unverified [OF h, of "Some empty_store" 7] show ?thesis
    by (simp add: sample_env_def)
qed

section \<open>C7: events of other kinds\<close>

text \<open>
  C7: for every event that passed the construction step (signature check and decoding)
  and whose kind is not \<^verbatim>\<open>checkout.session.completed\<close>, the handler writes nothing to
  the store, makes no other call, and acknowledges with an empty 200 response.
\<close>

theorem webhook_ignores_other_kinds:
  assumes "stripe_sdk e"
    and "webhook_event e req = Inr event"
    and "subscript event ''type'' = Inr ty"
    and "ty \<noteq> JStr ''checkout.session.completed''"
  shows "outcome (stripe_webhook e (Some s) now req) = Response 200 (Raw [])
         \<and> store_after (stripe_webhook e (Some s) now req) = Some s
         \<and> effects (stripe_webhook e (Some s) now req) = []"
  using assms by (simp add: stripe_webhook_def handle_event_def reply_def)

theorem webhook_ignores_other_kinds_witness:
  "outcome (stripe_webhook (sample_env\<lparr>webhook_secret := Some ''whsec_1''\<rparr>) (Some empty_store) 7
       (bare_request\<lparr>stripe_signature := Some ''t=1,v1=good'', raw_data := other_payload\<rparr>))
     = Response 200 (Raw [])
   \<and> store_after (stripe_webhook (sample_env\<lparr>webhook_secret := Some ''whsec_1''\<rparr>) (Some empty_store) 7
       (bare_request\<lparr>stripe_signature := Some ''t=1,v1=good'', raw_data := other_payload\<rparr>))
     = Some empty_store
   \<and> effects (stripe_webhook (sample_env\<lparr>webhook_secret := Some ''whsec_1''\<rparr>) (Some empty_store) 7
       (bare_request\<lparr>stripe_signature := Some ''t=1,v1=good'', raw_data := other_payload\<rparr>))
     = []"
proof -
  have sdk: "stripe_sdk (sample_env\<lparr>webhook_secret := Some ''whsec_1''\<rparr>)"
    by (simp add: sample_env_def)
  have ev: "webhook_event (sample_env\<lparr>webhook_secret := Some ''whsec_1''\<rparr>)
              (bare_request\<lparr>stripe_signature := Some ''t=1,v1=good'', raw_data := other_payload\<rparr>)
            = Inr (JObj [(''type'', JStr ''payment_intent.created'')])"
    by (simp add: webhook_event_def construct_event_def loads_event_def construct_from_def
        sample_defs)
  have ty: "subscript (JObj [(''type'', JStr ''payment_intent.created'')]) ''type''
            = Inr (JStr ''payment_intent.created'')"
    by simp
  have ne: "JStr ''payment_intent.created'' \<noteq> JStr ''checkout.session.completed''"
    by simp
  from webhook_ignores_other_kinds [OF sdk ev ty ne] show ?thesis .
qed

section \<open>C10: the webhook without a configured secret\<close>

text \<open>
  C10, as stated: without a webhook secret any well-formed JSON payload is accepted and a
  400 arises only from unparseable JSON. The payload \<^verbatim>\<open>[]\<close> is well-formed JSON, yet
  building the event from a value that is no object raises inside the \<^verbatim>\<open>try\<close>, and the
  handler answers 400.
\<close>

theorem webhook_nonobject_counterexample:
  "json_loads sample_env ''[]'' = Some (JArr [])
   \<and> outcome (stripe_webhook sample_env (Some empty_store) 7 (bare_request\<lparr>raw_data := ''[]''\<rparr>))
       = Response 400 (Raw [])"
  by (simp add: webhook_defs sample_defs)

text \<open>
  C10, amended. When STRIPE_WEBHOOK_SECRET is unset or empty, the handler's result does
  not depend on the signature header or on the signature check at all; a payload that
  decodes to a completed-checkout event with the fields the handler reads, whose client
  reference is a non-empty string without a slash, is recorded as a transaction of the
  user it names; and the answer is 400 exactly when the payload cannot be decoded or
  decodes to a value that is not an object. When a secret is set, the check is made: a
  request it rejects is answered 400 and nothing is written.
\<close>

theorem webhook_unsigned_without_secret:
  "(webhook_secret e = None \<or> webhook_secret e = Some [] \<longrightarrow>
      stripe_webhook (e\<lparr>verify_header := f\<rparr>) db now (req\<lparr>stripe_signature := sg\<rparr>)
        = stripe_webhook e db now req
      \<and> (stripe_sdk e \<and> json_loads e (raw_data req) = Some (JObj ev)
         \<and> map_of ev ''type'' = Some (JStr ''checkout.session.completed'')
         \<and> map_of ev ''data'' = Some (JObj d) \<and> map_of d ''object'' = Some (JObj ob)
         \<and> map_of ob ''client_reference_id'' = Some (JStr uid) \<and> uid \<noteq> []
         \<and> CHR ''/'' \<notin> set uid
         \<and> map_of ob ''amount_total'' = Some a \<and> map_of ob ''currency'' = Some c
         \<and> map_of ob ''payment_status'' = Some st
         \<longrightarrow> stripe_webhook e (Some s) now req
               = reply 200 (Raw [])
                   (Some (add_transaction s uid
                      \<lparr>tx_amount = a, tx_currency = c,
                       tx_payment_intent = dict_get ob ''payment_intent'',
                       tx_status = st, tx_timestamp = now\<rparr>))
                   [DbAddTransaction uid])
      \<and> (stripe_sdk e \<longrightarrow>
           (outcome (stripe_webhook e (Some s) now req) = Response 400 (Raw [])
            \<longleftrightarrow> (json_loads e (raw_data req) = None
                 \<or> (\<exists>v. json_loads e (raw_data req) = Some v \<and> (\<forall>kvs. v \<noteq> JObj kvs))))))
   \<and> (stripe_sdk e \<and> webhook_secret e = Some secret \<and> secret \<noteq> []
        \<and> \<not> verify_header e (raw_data req) (stripe_signature req) secret \<longrightarrow>
        stripe_webhook e (Some s) now req = reply 400 (Raw []) (Some s) [])"
proof (intro conjI impI)
  assume a: "webhook_secret e = None \<or> webhook_secret e = Some []"
  show "stripe_webhook (e\<lparr>verify_header := f\<rparr>) db now (req\<lparr>stripe_signature := sg\<rparr>)
        = stripe_webhook e db now req"
    using webhook_event_ignores_signature [OF a, where f = f and req = req and sg = sg]
    by (cases db) (simp_all add: stripe_webhook_def)
  {
    assume "stripe_sdk e"
    then show "outcome (stripe_webhook e (Some s) now req) = Response 400 (Raw [])
            \<longleftrightarrow> (json_loads e (raw_data req) = None
                 \<or> (\<exists>v. json_loads e (raw_data req) = Some v \<and> (\<forall>kvs. v \<noteq> JObj kvs)))"
      by (rule webhook_400_without_secret [OF a])
  }
  {
    assume "stripe_sdk e \<and> json_loads e (raw_data req) = Some (JObj ev)
         \<and> map_of ev ''type'' = Some (JStr ''checkout.session.completed'')
         \<and> map_of ev ''data'' = Some (JObj d) \<and> map_of d ''object'' = Some (JObj ob)
         \<and> map_of ob ''client_reference_id'' = Some (JStr uid) \<and> uid \<noteq> []
         \<and> CHR ''/'' \<notin> set uid
         \<and> map_of ob ''amount_total'' = Some a \<and> map_of ob ''currency'' = Some c
         \<and> map_of ob ''payment_status'' = Some st"
    then show "stripe_webhook e (Some s) now req
               = reply 200 (Raw [])
                   (Some (add_transaction s uid
                      \<lparr>tx_amount = a, tx_currency = c,
                       tx_payment_intent = dict_get ob ''payment_intent'',
                       tx_status = st, tx_timestamp = now\<rparr>))
                   [DbAddTransaction uid]"
      using webhook_forged_recorded [OF a] by blast
  }
next
  assume "stripe_sdk e \<and> webhook_secret e = Some secret \<and> secret \<noteq> []
        \<and> \<not> verify_header e (raw_data req) (stripe_signature req) secret"
  then show "stripe_webhook e (Some s) now req = reply 400 (Raw []) (Some s) []"
    by (simp add: stripe_webhook_def webhook_event_def construct_event_def)
qed

theorem webhook_unsigned_without_secret_witness:
  "stripe_webhook (sample_env\<lparr>verify_header := (\<lambda>p h k. False)\<rparr>) (Some empty_store) 10
       (bare_request\<lparr>raw_data := sample_payload, stripe_signature := Some ''forged''\<rparr>)
     = stripe_webhook sample_env (Some empty_store) 10 (bare_request\<lparr>raw_data := sample_payload\<rparr>)
   \<and> stripe_webhook sample_env (Some empty_store) 10 (bare_request\<lparr>raw_data := sample_payload\<rparr>)
     = reply 200 (Raw [])
         (Some (add_transaction empty_store ''u1''
            \<lparr>tx_amount = JInt 5000, tx_currency = JStr ''usd'',
             tx_payment_intent = JStr ''pi_1'', tx_status = JStr ''paid'', tx_timestamp = 10\<rparr>))
         [DbAddTransaction ''u1'']
   \<and> outcome (stripe_webhook sample_env (Some empty_store) 10 (bare_request\<lparr>raw_data := sample_payload\<rparr>))
       \<noteq> Response 400 (Raw [])
   \<and> stripe_webhook (sample_env\<lparr>webhook_secret := Some ''whsec_1''\<rparr>) (Some empty_store) 10
       (bare_request\<lparr>raw_data := sample_payload\<rparr>)
     = reply 400 (Raw []) (Some empty_store) []"
  using
    webhook_unsigned_without_secret [where e = sample_env and f = "\<lambda>p h k. False"
      and db = "Some empty_store" and now = 10
      and req = "bare_request\<lparr>raw_data := sample_payload\<rparr>" and sg = "Some ''forged''"
      and ev = "[(''id'', JStr ''evt_1''), (''type'', JStr ''checkout.session.completed''),
        (''data'', JObj [(''object'', sample_session)])]"
      and d = "[(''object'', sample_session)]"
      and ob = "[(''client_reference_id'', JStr ''u1''), (''amount_total'', JInt 5000),
           (''currency'', JStr ''usd''), (''payment_intent'', JStr ''pi_1''),
           (''payment_status'', JStr ''paid'')]"
      and uid = "''u1''" and a = "JInt 5000" and c = "JStr ''usd''" and st = "JStr ''paid''"
      and s = empty_store and secret = "''whsec_1''"]
    webhook_unsigned_without_secret [where e = "sample_env\<lparr>webhook_secret := Some ''whsec_1''\<rparr>"
      and now = 10 and req = "bare_request\<lparr>raw_data := sample_payload\<rparr>"
      and s = empty_store and secret = "''whsec_1''"]
  by (simp add: webhook_defs sample_defs)

section \<open>C8: transaction history\<close>



section \<open>C3: the correlation token of a checkout session\<close>

text \<open>
  C3: the checkout session sent to the payment processor is tagged with the verified
  user's id as client reference. The code at the specification's end-to-end scenario
  (amount 5000, both URLs, a valid credential of user \<^verbatim>\<open>u1\<close>): the session request goes
  out with six arguments, none of them \<^verbatim>\<open>client_reference_id\<close>, and the user's id is in
  none of them. The webhook reads \<^verbatim>\<open>client_reference_id\<close> from the completed session; a
  session created this way carries none, and its transaction is filed under
  \<^verbatim>\<open>unknown\<close>.
\<close>

theorem checkout_session_untagged:
  "effects (create_checkout_session sample_env (Some sample_store)
              (bare_request\<lparr>authorization := Some ''Bearer token-of-u1'',
                             get_json := Inr (checkout_body (JInt 5000))\<rparr>))
     = [VerifyIdToken ''token-of-u1'', DbGetUser ''u1'',
        StripeSessionCreate
          (session_kwargs 5000 (JStr ''Legal Services Payment'') (JStr ''u1@example.com'')
             (JStr ''https://x/ok'') (JStr ''https://x/cancel''))]
   \<and> map_of (session_kwargs 5000 (JStr ''Legal Services Payment'') (JStr ''u1@example.com'')
               (JStr ''https://x/ok'') (JStr ''https://x/cancel'')) ''client_reference_id'' = None
   \<and> map fst (session_kwargs 5000 (JStr ''Legal Services Payment'') (JStr ''u1@example.com'')
               (JStr ''https://x/ok'') (JStr ''https://x/cancel''))
       = [''payment_method_types'', ''line_items'', ''mode'', ''customer_email'',
          ''success_url'', ''cancel_url'']
   \<and> outcome (create_checkout_session sample_env (Some sample_store)
              (bare_request\<lparr>authorization := Some ''Bearer token-of-u1'',
                             get_json := Inr (checkout_body (JInt 5000))\<rparr>))
     = Response 200 (Json (JObj [(''url'', JStr ''https://checkout.example/session-1'')]))
   \<and> effects (handle_event empty_store 7
        (JObj [(''type'', JStr ''checkout.session.completed''),
               (''data'', JObj [(''object'',
                  JObj [(''amount_total'', JInt 5000), (''currency'', JStr ''usd''),
                        (''payment_intent'', JStr ''pi_1''),
                        (''payment_status'', JStr ''paid'')])])]))
     = [DbAddTransaction ''unknown'']"
  by (simp add: checkout_defs webhook_defs sample_defs)

section \<open>C4: requests without a Bearer credential\<close>

text \<open>
  C4, as stated: on every Bearer-protected endpoint a missing or non-Bearer Authorization
  header gives 401. Without any Authorization header, create-checkout-session answers
  400 to an otherwise valid request, and plaid/exchange_public_token answers 400 when
  the public token is missing too, since it checks the body first.
\<close>

theorem missing_bearer_status_counterexample:
  "outcome (create_checkout_session sample_env (Some sample_store)
              (bare_request\<lparr>get_json := Inr (checkout_body (JInt 5000))\<rparr>))
     = Response 400 (ErrorOf ValueError)
   \<and> outcome (plaid_exchange_public_token sample_env (Some sample_store)
              (bare_request\<lparr>get_json := Inr (JObj [])\<rparr>))
     = Response 400 (error_json ''public_token is required'')"
  by (simp add: checkout_defs plaid_exchange_public_token_def sample_defs)

text \<open>
  C4, amended: when the Authorization header is missing or does not start with
  \<^verbatim>\<open>"Bearer "\<close>, none of the four endpoints reaches the document store or makes any
  external call, and none answers with success. plaid/create_link_token,
  plaid/exchange_public_token and transactions answer 401 with an error body once their
  earlier checks have passed: the bank-link client is configured (create_link_token), the
  client and the store are configured and the public token is present (exchange), the
  store is configured (transactions). Where an earlier check fails it answers first:
  500 for a missing client or store, 400 for a missing public token.
\<close>

theorem missing_bearer_rejected_before_effects:
  assumes "authorization req = None \<or> (\<exists>h. authorization req = Some h \<and> take 7 h \<noteq> ''Bearer '')"
  shows "effects (create_checkout_session e db req) = []
         \<and> store_after (create_checkout_session e db req) = db
         \<and> (\<forall>b. outcome (create_checkout_session e db req) \<noteq> Response 200 b)
         \<and> effects (plaid_create_link_token e db req) = []
         \<and> store_after (plaid_create_link_token e db req) = db
         \<and> (\<forall>b. outcome (plaid_create_link_token e db req) \<noteq> Response 200 b)
         \<and> outcome (plaid_create_link_token e db req)
             = (if plaid_client e then Response 401 (ErrorOf ValueError)
                else Response 500 (error_json ''Plaid SDK not installed''))
         \<and> effects (plaid_exchange_public_token e db req) = []
         \<and> store_after (plaid_exchange_public_token e db req) = db
         \<and> (\<forall>b. outcome (plaid_exchange_public_token e db req) \<noteq> Response 200 b)
         \<and> outcome (plaid_exchange_public_token e db req)
             = (if plaid_client e \<and> db \<noteq> None then
                  (case json_or_empty (get_json req) of
                     Inl x \<Rightarrow> Unhandled x
                   | Inr data \<Rightarrow>
                       if truthy (dict_get data ''public_token'')
                       then Response 401 (ErrorOf ValueError)
                       else Response 400 (error_json ''public_token is required''))
                else Response 500 (error_json ''Plaid or Firestore not configured''))
         \<and> effects (list_transactions e db req) = []
         \<and> store_after (list_transactions e db req) = db
         \<and> (\<forall>b. outcome (list_transactions e db req) \<noteq> Response 200 b)
         \<and> outcome (list_transactions e db req)
             = (if db \<noteq> None then Response 401 (ErrorOf ValueError)
                else Response 500 (error_json ''Firestore not configured''))"
proof -
  note v = verify_missing_bearer [OF assms, of e]
  note c = checkout_missing_bearer [OF v, of db]
  note l = link_token_missing_bearer [OF v, of db]
  note x = exchange_missing_bearer [OF v, of db]
  note t = transactions_missing_bearer [OF v, of db]
  have nl: "\<forall>b. outcome (plaid_create_link_token e db req) \<noteq> Response 200 b"
    using l by simp
  have nx: "\<forall>b. outcome (plaid_exchange_public_token e db req) \<noteq> Response 200 b"
    using x by (simp split: sum.splits)
  have nt: "\<forall>b. outcome (list_transactions e db req) \<noteq> Response 200 b"
    using t by simp
  from c l x t nl nx nt show ?thesis by blast
qed

theorem missing_bearer_rejected_before_effects_witness:
  "effects (create_checkout_session sample_env (Some sample_store)
      (bare_request\<lparr>authorization := Some ''Basic dTE6cHc='',
                     get_json := Inr (JObj [(''public_token'', JStr ''public-1'')])\<rparr>)) = []
   \<and> outcome (plaid_create_link_token sample_env (Some sample_store)
      (bare_request\<lparr>authorization := Some ''Basic dTE6cHc='',
                     get_json := Inr (JObj [(''public_token'', JStr ''public-1'')])\<rparr>))
       = Response 401 (ErrorOf ValueError)
   \<and> outcome (plaid_exchange_public_token sample_env (Some sample_store)
      (bare_request\<lparr>authorization := Some ''Basic dTE6cHc='',
                     get_json := Inr (JObj [(''public_token'', JStr ''public-1'')])\<rparr>))
       = Response 401 (ErrorOf ValueError)
   \<and> effects (plaid_exchange_public_token sample_env (Some sample_store)
      (bare_request\<lparr>authorization := Some ''Basic dTE6cHc='',
                     get_json := Inr (JObj [(''public_token'', JStr ''public-1'')])\<rparr>)) = []
   \<and> outcome (list_transactions sample_env (Some sample_store)
      (bare_request\<lparr>authorization := Some ''Basic dTE6cHc='',
                     get_json := Inr (JObj [(''public_token'', JStr ''public-1'')])\<rparr>))
       = Response 401 (ErrorOf ValueError)
   \<and> effects (list_transactions sample_env (Some sample_store)
      (bare_request\<lparr>authorization := Some ''Basic dTE6cHc='',
                     get_json := Inr (JObj [(''public_token'', JStr ''public-1'')])\<rparr>)) = []
   \<and> outcome (plaid_exchange_public_token sample_env (Some sample_store)
      (bare_request\<lparr>get_json := Inr (JObj [])\<rparr>))
       = Response 400 (error_json ''public_token is required'')
   \<and> outcome (plaid_create_link_token (sample_env\<lparr>plaid_client := False\<rparr>) None bare_request)
       = Response 500 (error_json ''Plaid SDK not installed'')
   \<and> outcome (plaid_exchange_public_token (sample_env\<lparr>plaid_client := False\<rparr>) None bare_request)
       = Response 500 (error_json ''Plaid or Firestore not configured'')
   \<and> outcome (list_transactions (sample_env\<lparr>plaid_client := False\<rparr>) None bare_request)
       = Response 500 (error_json ''Firestore not configured'')"
proof -
  let ?req = "bare_request\<lparr>authorization := Some ''Basic dTE6cHc='',
                     get_json := Inr (JObj [(''public_token'', JStr ''public-1'')])\<rparr>"
  let ?req2 = "bare_request\<lparr>get_json := Inr (JObj [])\<rparr>"
  have h: "authorization ?req = None
           \<or> (\<exists>h. authorization ?req = Some h \<and> take 7 h \<noteq> ''Bearer '')"
    by simp
  have h2: "authorization ?req2 = None
           \<or> (\<exists>h. authorization ?req2 = Some h \<and> take 7 h \<noteq> ''Bearer '')"
    by (simp add: bare_request_def)
  have h3: "authorization bare_request = None
           \<or> (\<exists>h. authorization bare_request = Some h \<and> take 7 h \<noteq> ''Bearer '')"
    by (simp add: bare_request_def)
  have p: "plaid_client sample_env" by (simp add: sample_env_def)
  have np: "\<not> plaid_client (sample_env\<lparr>plaid_client := False\<rparr>)" by simp
  have d: "json_or_empty (get_json ?req) = Inr [(''public_token'', JStr ''public-1'')]"
    by (simp add: json_or_empty_def)
  have d2: "json_or_empty (get_json ?req2) = Inr []"
    by (simp add: json_or_empty_def)
  have t: "truthy (dict_get [(''public_token'', JStr ''public-1'')] ''public_token'')"
    by (simp add: dict_get_def dict_get_default_def)
  have t2: "\<not> truthy (dict_get [] ''public_token'')"
    by (simp add: dict_get_def dict_get_default_def)
  from missing_bearer_rejected_before_effects
         [OF h, where e = sample_env and db = "Some sample_store"]
       missing_bearer_rejected_before_effects
         [OF h2, where e = sample_env and db = "Some sample_store"]
       missing_bearer_rejected_before_effects
         [OF h3, where e = "sample_env\<lparr>plaid_client := False\<rparr>" and db = None]
       p np d d2 t t2
  show ?thesis by simp
qed

section \<open>C5: the amount of a checkout request\<close>




section \<open>C6: exceptions that leave a handler\<close>

text \<open>
  C6: every failure is caught in the handler and turned into a response. Two requests
  where an exception leaves the handler instead: a checkout body whose amount is
  \<^verbatim>\<open>null\<close> (\<^verbatim>\<open>int(None)\<close> on line 159, before the \<^verbatim>\<open>try\<close> of line 165), and
  a webhook payload \<^verbatim>\<open>{}\<close> with no secret configured (\<^verbatim>\<open>event["type"]\<close> on line 222,
  after the \<^verbatim>\<open>try\<close> of lines 210 to 220).
\<close>

theorem unhandled_exceptions_escape:
  "outcome (create_checkout_session sample_env (Some sample_store)
              (bare_request\<lparr>authorization := Some ''Bearer token-of-u1'',
                             get_json := Inr (checkout_body JNull)\<rparr>))
     = Unhandled TypeError
   \<and> outcome (stripe_webhook sample_env (Some sample_store) 7 (bare_request\<lparr>raw_data := ''{}''\<rparr>))
     = Unhandled (KeyError ''type'')"
  by (simp add: checkout_defs webhook_defs sample_defs)

section \<open>C9: contact submissions and the operator notification\<close>





end
